theory Spec2Isabelle
  imports Complex_Main
begin

section \<open>Numeric conventions\<close>

text \<open>
  The arrays of \<^verbatim>\<open>yolo3/model.py\<close> hold float32 values. They are modelled by
  real numbers: rounding is abstracted away. The one float effect the code can
  meet without rounding, a division by zero, is kept: the quotient of two
  arrays is a value of \<open>fval\<close>, which has the infinities and NaN of IEEE
  arithmetic beside the finite values.
\<close>

datatype fval = Fin real | PInf | NInf | NaN

definition fdiv :: "real \<Rightarrow> real \<Rightarrow> fval" where
  "fdiv x y =
     (if y \<noteq> 0 then Fin (x / y)
      else if 0 < x then PInf
      else if x < 0 then NInf
      else NaN)"

text \<open>The comparison \<^verbatim>\<open><=\<close> of floats: false as soon as one side is NaN.\<close>

fun fle :: "fval \<Rightarrow> fval \<Rightarrow> bool" where
  "fle NaN _ = False"
| "fle _ NaN = False"
| "fle NInf _ = True"
| "fle _ PInf = True"
| "fle (Fin a) (Fin b) = (a \<le> b)"
| "fle (Fin a) NInf = False"
| "fle PInf (Fin b) = False"
| "fle PInf NInf = False"

text \<open>
  \<^verbatim>\<open>np.argmax\<close> along the last axis: the first index of the maximum; a NaN
  counts as the maximum and ends the scan. On an empty sequence numpy raises
  ValueError.
\<close>

datatype error = AssertionError | KeyError | ValueError | IndexError

fun argmax_from :: "fval \<Rightarrow> nat \<Rightarrow> nat \<Rightarrow> fval list \<Rightarrow> nat" where
  "argmax_from mp mi i [] = mi"
| "argmax_from mp mi i (x # xs) =
     (if mp = NaN then mi
      else if \<not> fle x mp then argmax_from x i (Suc i) xs
      else argmax_from mp mi (Suc i) xs)"

fun argmax :: "fval list \<Rightarrow> error + nat" where
  "argmax [] = Inl ValueError"
| "argmax (x # xs) = Inr (argmax_from x 0 1 xs)"

text \<open>
  Indexing one axis of length \<open>n\<close> of a numpy array with a signed integer:
  a negative index counts from the end, anything outside \<open>[-n, n)\<close> raises
  IndexError.
\<close>

definition np_index :: "nat \<Rightarrow> int \<Rightarrow> error + nat" where
  "np_index n i =
     (if 0 \<le> i \<and> i < int n then Inr (nat i)
      else if - int n \<le> i \<and> i < 0 then Inr (nat (int n + i))
      else Inl IndexError)"

text \<open>\<^verbatim>\<open>a // 2\<close> on a float array, and \<^verbatim>\<open>.astype('int32')\<close> of a float.\<close>

definition floor_div2 :: "real \<Rightarrow> real" where
  "floor_div2 a = of_int \<lfloor>a / 2\<rfloor>"

definition astype_int :: "real \<Rightarrow> int" where
  "astype_int x = (if 0 \<le> x then \<lfloor>x\<rfloor> else \<lceil>x\<rceil>)"

section \<open>Target tensors\<close>

text \<open>
  One target array \<^verbatim>\<open>y_true[l]\<close> has the five axes (image, grid row, grid
  column, anchor slot, channel). It is modelled by its shape and a function from
  index tuples to values; \<^verbatim>\<open>np.zeros\<close> is the constant function.
\<close>

type_synonym index5 = "nat \<times> nat \<times> nat \<times> nat \<times> nat"

record tensor =
  shape :: index5
  data :: "index5 \<Rightarrow> real"

definition zeros :: "index5 \<Rightarrow> tensor" where
  "zeros sh = \<lparr>shape = sh, data = (\<lambda>_. 0)\<rparr>"

section \<open>Ground-truth boxes and their centre form\<close>

text \<open>
  A row of \<^verbatim>\<open>true_boxes\<close>: absolute \<^verbatim>\<open>x_min, y_min, x_max, y_max, class_id\<close>.
\<close>

record gt_box =
  x_min :: real
  y_min :: real
  x_max :: real
  y_max :: real
  class_id :: real

text \<open>Lines 266 and 267 of \<^verbatim>\<open>preprocess_true_boxes\<close>.\<close>

definition boxes_xy :: "gt_box \<Rightarrow> real \<times> real" where
  "boxes_xy r = (floor_div2 (x_min r + x_max r), floor_div2 (y_min r + y_max r))"

definition boxes_wh :: "gt_box \<Rightarrow> real \<times> real" where
  "boxes_wh r = (x_max r - x_min r, y_max r - y_min r)"

text \<open>
  Lines 268 and 269 overwrite the first four columns of the row by the centre
  and the size divided by \<^verbatim>\<open>input_shape[::-1]\<close>, that is by (width, height);
  \<open>input_shape\<close> is (height, width).
\<close>

record norm_box =
  nx :: real
  ny :: real
  nw :: real
  nh :: real
  ncls :: real

definition normalize_box :: "nat \<times> nat \<Rightarrow> gt_box \<Rightarrow> norm_box" where
  "normalize_box input_shape r =
     \<lparr>nx = fst (boxes_xy r) / real (snd input_shape),
      ny = snd (boxes_xy r) / real (fst input_shape),
      nw = fst (boxes_wh r) / real (snd input_shape),
      nh = snd (boxes_wh r) / real (fst input_shape),
      ncls = class_id r\<rparr>"

section \<open>The target assigner \<^verbatim>\<open>preprocess_true_boxes\<close>\<close>

definition anchor_mask :: "nat \<Rightarrow> nat list list" where
  "anchor_mask num_layers =
     (if num_layers = 3 then [[6, 7, 8], [3, 4, 5], [0, 1, 2]] else [[3, 4, 5], [1, 2, 3]])"

text \<open>
  \<^verbatim>\<open>input_shape // {0: 32, 1: 16, 2: 8}[l]\<close>: the dictionary has no key beyond 2.
\<close>

definition grid_shape :: "nat \<times> nat \<Rightarrow> nat \<Rightarrow> error + nat \<times> nat" where
  "grid_shape input_shape l =
     (if l = 0 then Inr (fst input_shape div 32, snd input_shape div 32)
      else if l = 1 then Inr (fst input_shape div 16, snd input_shape div 16)
      else if l = 2 then Inr (fst input_shape div 8, snd input_shape div 8)
      else Inl KeyError)"

text \<open>
  Lines 291 to 300: the IoU of a box and an anchor, both centred at the origin.
\<close>

definition shape_iou :: "real \<times> real \<Rightarrow> real \<times> real \<Rightarrow> fval" where
  "shape_iou wh anchor =
     (let box_maxes = (fst wh / 2, snd wh / 2);
          box_mins = (- fst box_maxes, - snd box_maxes);
          anchor_maxes = (fst anchor / 2, snd anchor / 2);
          anchor_mins = (- fst anchor_maxes, - snd anchor_maxes);
          intersect_mins = (max (fst box_mins) (fst anchor_mins), max (snd box_mins) (snd anchor_mins));
          intersect_maxes = (min (fst box_maxes) (fst anchor_maxes), min (snd box_maxes) (snd anchor_maxes));
          intersect_wh = (max (fst intersect_maxes - fst intersect_mins) 0,
                          max (snd intersect_maxes - snd intersect_mins) 0);
          intersect_area = fst intersect_wh * snd intersect_wh;
          box_area = fst wh * snd wh;
          anchor_area = fst anchor * snd anchor
      in fdiv intersect_area (box_area + anchor_area - intersect_area))"

text \<open>Line 282 and line 286: the rows kept for anchor matching.\<close>

definition valid_mask :: "gt_box \<Rightarrow> bool" where
  "valid_mask r = (fst (boxes_wh r) > 0)"

text \<open>
  Line 303: the best anchor of every kept row. With no anchor at all numpy
  cannot take the maximum and raises ValueError.
\<close>

fun best_anchor :: "(real \<times> real) list \<Rightarrow> (real \<times> real) list \<Rightarrow> error + nat list" where
  "best_anchor anchors [] = Inr []"
| "best_anchor anchors (wh # whs) =
     (case argmax (map (shape_iou wh) anchors) of
        Inl e \<Rightarrow> Inl e
      | Inr n \<Rightarrow> (case best_anchor anchors whs of Inl e \<Rightarrow> Inl e | Inr ns \<Rightarrow> Inr (n # ns)))"

text \<open>\<^verbatim>\<open>anchor_mask[l].index(n)\<close>, called only when \<open>n\<close> is in the list.\<close>

fun index_of :: "nat list \<Rightarrow> nat \<Rightarrow> nat" where
  "index_of [] n = 0"
| "index_of (x # xs) n = (if x = n then 0 else Suc (index_of xs n))"

text \<open>Lines 312 to 314: the three assignments into \<^verbatim>\<open>y_true[l]\<close>.\<close>

definition write_target :: "tensor \<Rightarrow> nat \<Rightarrow> int \<Rightarrow> int \<Rightarrow> nat \<Rightarrow> norm_box \<Rightarrow> int \<Rightarrow> error + tensor" where
  "write_target y b j i k row c =
     (case shape y of (sm, sh, sw, sk, sc) \<Rightarrow>
        (case np_index sh j of Inl e \<Rightarrow> Inl e | Inr j' \<Rightarrow>
        (case np_index sw i of Inl e \<Rightarrow> Inl e | Inr i' \<Rightarrow>
           let d1 = (data y)((b, j', i', k, 0) := nx row, (b, j', i', k, 1) := ny row,
                             (b, j', i', k, 2) := nw row, (b, j', i', k, 3) := nh row);
               d2 = d1((b, j', i', k, 4) := 1)
           in (case np_index sc (5 + c) of Inl e \<Rightarrow> Inl e
               | Inr ch \<Rightarrow> Inr (y\<lparr>data := d2((b, j', i', k, ch) := 1)\<rparr>)))))"

text \<open>Lines 306 to 314: the loop over the layers for one row and its best anchor.\<close>

fun assign_layers :: "nat \<times> nat \<Rightarrow> nat list list \<Rightarrow> nat \<Rightarrow> norm_box \<Rightarrow> nat \<Rightarrow> nat list \<Rightarrow> tensor list \<Rightarrow> error + tensor list" where
  "assign_layers input_shape msk b row n [] y_true = Inr y_true"
| "assign_layers input_shape msk b row n (l # ls) y_true =
     (if n \<in> set (msk ! l) then
        (case grid_shape input_shape l of Inl e \<Rightarrow> Inl e | Inr g \<Rightarrow>
           let i = \<lfloor>nx row * real (snd g)\<rfloor>;
               j = \<lfloor>ny row * real (fst g)\<rfloor>;
               k = index_of (msk ! l) n;
               c = astype_int (ncls row)
           in (case write_target (y_true ! l) b j i k row c of Inl e \<Rightarrow> Inl e
               | Inr y' \<Rightarrow> assign_layers input_shape msk b row n ls (y_true[l := y'])))
      else assign_layers input_shape msk b row n ls y_true)"

text \<open>
  Line 305: \<^verbatim>\<open>for t, n in enumerate(best_anchor)\<close>. The row read at step \<open>t\<close> is
  \<^verbatim>\<open>true_boxes[b, t]\<close>, row \<open>t\<close> of the whole image, so the model walks the
  image's rows and the best anchors side by side.
\<close>

fun assign_rows :: "nat \<times> nat \<Rightarrow> nat list list \<Rightarrow> nat \<Rightarrow> nat list \<Rightarrow> norm_box list \<Rightarrow> nat list \<Rightarrow> tensor list \<Rightarrow> error + tensor list" where
  "assign_rows input_shape msk b layers (row # rows) (n # ns) y_true =
     (case assign_layers input_shape msk b row n layers y_true of Inl e \<Rightarrow> Inl e
      | Inr y' \<Rightarrow> assign_rows input_shape msk b layers rows ns y')"
| "assign_rows input_shape msk b layers rows ns y_true = Inr y_true"

text \<open>Lines 284 to 314: the loop over the images of the batch.\<close>

fun assign_images :: "nat \<times> nat \<Rightarrow> (real \<times> real) list \<Rightarrow> nat list list \<Rightarrow> nat list \<Rightarrow> nat \<Rightarrow> gt_box list list \<Rightarrow> tensor list \<Rightarrow> error + tensor list" where
  "assign_images input_shape anchors msk layers b [] y_true = Inr y_true"
| "assign_images input_shape anchors msk layers b (img # imgs) y_true =
     (let wh = map boxes_wh (filter valid_mask img) in
      if length wh = 0 then assign_images input_shape anchors msk layers (Suc b) imgs y_true
      else (case best_anchor anchors wh of Inl e \<Rightarrow> Inl e
            | Inr ns \<Rightarrow>
               (case assign_rows input_shape msk b layers (map (normalize_box input_shape) img) ns y_true of
                  Inl e \<Rightarrow> Inl e
                | Inr y' \<Rightarrow> assign_images input_shape anchors msk layers (Suc b) imgs y')))"

text \<open>Lines 272 to 276: the grid shapes and the zero-initialised targets.\<close>

fun init_y_true :: "nat \<Rightarrow> nat \<times> nat \<Rightarrow> nat list list \<Rightarrow> nat \<Rightarrow> nat list \<Rightarrow> error + tensor list" where
  "init_y_true m input_shape msk num_classes [] = Inr []"
| "init_y_true m input_shape msk num_classes (l # ls) =
     (case grid_shape input_shape l of Inl e \<Rightarrow> Inl e | Inr g \<Rightarrow>
        (case init_y_true m input_shape msk num_classes ls of Inl e \<Rightarrow> Inl e
         | Inr ys \<Rightarrow> Inr (zeros (m, fst g, snd g, length (msk ! l), 5 + num_classes) # ys)))"

definition preprocess_true_boxes :: "gt_box list list \<Rightarrow> nat \<times> nat \<Rightarrow> (real \<times> real) list \<Rightarrow> nat \<Rightarrow> error + tensor list" where
  "preprocess_true_boxes true_boxes input_shape anchors num_classes =
     (if \<not> (\<forall>img \<in> set true_boxes. \<forall>r \<in> set img. class_id r < real num_classes)
      then Inl AssertionError
      else
        let num_layers = length anchors div 3;
            msk = anchor_mask num_layers;
            layers = [0..<num_layers]
        in (case init_y_true (length true_boxes) input_shape msk num_classes layers of
              Inl e \<Rightarrow> Inl e
            | Inr y_true \<Rightarrow> assign_images input_shape anchors msk layers 0 true_boxes y_true))"

section \<open>Centre form and corner form\<close>

text \<open>
  Lines 173 and 174 of \<^verbatim>\<open>yolo_correct_boxes\<close> and lines 336 to 338 of
  \<^verbatim>\<open>box_iou\<close>: the corners of a box given by centre and size, one axis at a time
  (\<^verbatim>\<open>mins = xy - wh / 2\<close>, \<^verbatim>\<open>maxes = xy + wh / 2\<close>).
\<close>

definition box_mins :: "real \<times> real \<Rightarrow> real \<times> real \<Rightarrow> real \<times> real" where
  "box_mins xy wh = (fst xy - fst wh / 2, snd xy - snd wh / 2)"

definition box_maxes :: "real \<times> real \<Rightarrow> real \<times> real \<Rightarrow> real \<times> real" where
  "box_maxes xy wh = (fst xy + fst wh / 2, snd xy + snd wh / 2)"

text \<open>
  The corner-form row that the centre form of a ground-truth row gives back:
  lines 266 and 267 followed by the conversion above.
\<close>

definition center_to_corners :: "real \<times> real \<Rightarrow> real \<times> real \<Rightarrow> real \<times> real \<times> real \<times> real" where
  "center_to_corners xy wh =
     (fst (box_mins xy wh), snd (box_mins xy wh), fst (box_maxes xy wh), snd (box_maxes xy wh))"

definition corners :: "gt_box \<Rightarrow> real \<times> real \<times> real \<times> real" where
  "corners r = (x_min r, y_min r, x_max r, y_max r)"

section \<open>The box decoder \<^verbatim>\<open>yolo_head\<close>\<close>

text \<open>
  A feature array of one scale, \<^verbatim>\<open>(batch, grid_h, grid_w, num_anchors * (num_classes + 5))\<close>,
  is a nested list together with the grid shape that \<^verbatim>\<open>K.shape(feats)[1:3]\<close> reads.
  The divisions of the decoder are by the grid shape and by \<open>input_shape\<close>; they
  are written with the division of the reals, which agrees with the float
  division for a divisor that is not zero.
\<close>

record features =
  grid_h :: nat
  grid_w :: nat
  raw :: "real list list list list"

definition sigmoid :: "real \<Rightarrow> real" where
  "sigmoid x = 1 / (1 + exp (- x))"

definition arange :: "nat \<Rightarrow> real list" where
  "arange n = map real [0..<n]"

text \<open>
  Lines 138 to 142. \<open>grid_y\<close> is the column of row numbers tiled along the
  width, \<open>grid_x\<close> the row of column numbers tiled along the height, both of
  shape \<^verbatim>\<open>(grid_h, grid_w, 1, 1)\<close>; \<open>grid\<close> joins them on the last axis.
\<close>

definition grid_y :: "nat \<times> nat \<Rightarrow> real list list list list" where
  "grid_y gs = map (\<lambda>y. concat (replicate (snd gs) [[[y]]])) (arange (fst gs))"

definition grid_x :: "nat \<times> nat \<Rightarrow> real list list list list" where
  "grid_x gs = concat (replicate (fst gs) [map (\<lambda>x. [[x]]) (arange (snd gs))])"

definition concatenate_last :: "real list list list list \<Rightarrow> real list list list list \<Rightarrow> real list list list list" where
  "concatenate_last a b = map2 (map2 (map2 (@))) a b"

definition grid :: "nat \<times> nat \<Rightarrow> real list list list list" where
  "grid gs = concatenate_last (grid_x gs) (grid_y gs)"

text \<open>
  Lines 145 and 146: the channel axis is split into \<open>num_anchors\<close> runs of
  \<open>num_classes + 5\<close> values.
\<close>

fun reshape_anchors :: "nat \<Rightarrow> nat \<Rightarrow> real list \<Rightarrow> real list list" where
  "reshape_anchors 0 n xs = []"
| "reshape_anchors (Suc k) n xs = take n xs # reshape_anchors k n (drop n xs)"

text \<open>
  The four results of \<^verbatim>\<open>yolo_head\<close> (with \<^verbatim>\<open>calc_loss=False\<close>) at one position
  \<^verbatim>\<open>(b, row, column, anchor)\<close>.
\<close>

record head_out =
  box_xy :: "real \<times> real"
  box_wh :: "real \<times> real"
  box_confidence :: real
  box_class_probs :: "real list"

text \<open>
  Lines 149 to 154 at one position: \<open>g\<close> is the entry of \<open>grid\<close> there,
  \<open>f\<close> the \<open>num_classes + 5\<close> raw values, \<open>anchor\<close> the anchor of the slot.
  \<^verbatim>\<open>grid_shape[::-1]\<close> and \<^verbatim>\<open>input_shape[::-1]\<close> are (width, height).
\<close>

definition decode_slot :: "nat \<times> nat \<Rightarrow> real \<times> real \<Rightarrow> real list \<Rightarrow> real \<times> real \<Rightarrow> real list \<Rightarrow> head_out" where
  "decode_slot gs input_shape g anchor f =
     \<lparr>box_xy = ((sigmoid (f ! 0) + g ! 0) / real (snd gs), (sigmoid (f ! 1) + g ! 1) / real (fst gs)),
      box_wh = (exp (f ! 2) * fst anchor / snd input_shape, exp (f ! 3) * snd anchor / fst input_shape),
      box_confidence = sigmoid (f ! 4),
      box_class_probs = map sigmoid (drop 5 f)\<rparr>"

definition yolo_head :: "features \<Rightarrow> (real \<times> real) list \<Rightarrow> nat \<Rightarrow> real \<times> real \<Rightarrow> head_out list list list list" where
  "yolo_head feats anchors num_classes input_shape =
     (let num_anchors = length anchors;
          gs = (grid_h feats, grid_w feats);
          g = grid gs
      in map (\<lambda>fb.
           map2 (\<lambda>grow frow.
             map2 (\<lambda>gcell fcell.
               map2 (decode_slot gs input_shape (gcell ! 0)) anchors
                    (reshape_anchors num_anchors (num_classes + 5) fcell))
             grow frow)
           g fb)
         (raw feats))"

section \<open>The letterbox correction \<^verbatim>\<open>yolo_correct_boxes\<close>\<close>

text \<open>\<^verbatim>\<open>K.round\<close> rounds a half to the even neighbour.\<close>

definition K_round :: "real \<Rightarrow> real" where
  "K_round x =
     (let f = \<lfloor>x\<rfloor>; d = x - of_int f
      in if d < 1 / 2 then of_int f
         else if 1 / 2 < d then of_int (f + 1)
         else if even f then of_int f else of_int (f + 1))"

text \<open>
  Line 167: \<^verbatim>\<open>K.round(image_shape * K.min(input_shape / image_shape))\<close>. Shapes are
  (height, width).
\<close>

definition new_shape :: "real \<times> real \<Rightarrow> real \<times> real \<Rightarrow> real \<times> real" where
  "new_shape input_shape image_shape =
     (let m = min (fst input_shape / fst image_shape) (snd input_shape / snd image_shape)
      in (K_round (fst image_shape * m), K_round (snd image_shape * m)))"

text \<open>Lines 168 and 169: the padding offset and the scale of the letterbox.\<close>

definition letterbox_offset :: "real \<times> real \<Rightarrow> real \<times> real \<Rightarrow> real \<times> real" where
  "letterbox_offset input_shape image_shape =
     (let ns = new_shape input_shape image_shape
      in ((fst input_shape - fst ns) / 2 / fst input_shape,
          (snd input_shape - snd ns) / 2 / snd input_shape))"

definition letterbox_scale :: "real \<times> real \<Rightarrow> real \<times> real \<Rightarrow> real \<times> real" where
  "letterbox_scale input_shape image_shape =
     (let ns = new_shape input_shape image_shape
      in (fst input_shape / fst ns, snd input_shape / snd ns))"

text \<open>
  Lines 163 to 184 for one box; the result is \<^verbatim>\<open>(y_min, x_min, y_max, x_max)\<close>.
  The divisors are \<open>image_shape\<close>, \<open>input_shape\<close> and \<open>new_shape\<close>; as in the
  decoder, the divisions are those of the reals.
\<close>

definition yolo_correct_boxes :: "real \<times> real \<Rightarrow> real \<times> real \<Rightarrow> real \<times> real \<Rightarrow> real \<times> real \<Rightarrow> real \<times> real \<times> real \<times> real" where
  "yolo_correct_boxes bxy bwh input_shape image_shape =
     (let box_yx = (snd bxy, fst bxy);
          box_hw = (snd bwh, fst bwh);
          offset = letterbox_offset input_shape image_shape;
          scale = letterbox_scale input_shape image_shape;
          box_yx = ((fst box_yx - fst offset) * fst scale, (snd box_yx - snd offset) * snd scale);
          box_hw = (fst box_hw * fst scale, snd box_hw * snd scale);
          mins = box_mins box_yx box_hw;
          maxes = box_maxes box_yx box_hw
      in (fst mins * fst image_shape, snd mins * snd image_shape,
          fst maxes * fst image_shape, snd maxes * snd image_shape))"

section \<open>The detection filter \<^verbatim>\<open>yolo_eval\<close>\<close>

type_synonym box = "real \<times> real \<times> real \<times> real"

text \<open>
  \<^verbatim>\<open>yolo_boxes_and_scores\<close>: the decoded positions are flattened to one row per
  candidate box, with its corrected corners and its \<open>num_classes\<close> scores
  (objectness times class probability).
\<close>

definition yolo_boxes_and_scores :: "features \<Rightarrow> (real \<times> real) list \<Rightarrow> nat \<Rightarrow> real \<times> real \<Rightarrow> real \<times> real \<Rightarrow> box list \<times> real list list" where
  "yolo_boxes_and_scores feats anchors num_classes input_shape image_shape =
     (let outs = concat (concat (concat (yolo_head feats anchors num_classes input_shape)));
          boxes = map (\<lambda>out. yolo_correct_boxes (box_xy out) (box_wh out) input_shape image_shape) outs;
          box_scores = map (\<lambda>out. map (\<lambda>p. box_confidence out * p) (box_class_probs out)) outs
      in (boxes, box_scores))"

text \<open>
  \<^verbatim>\<open>anchors[anchor_mask[l]]\<close>: the mask has two or three entries, and every index
  in the entry must exist in \<open>anchors\<close>; otherwise IndexError.
\<close>

definition mask_anchors :: "(real \<times> real) list \<Rightarrow> nat list list \<Rightarrow> nat \<Rightarrow> error + (real \<times> real) list" where
  "mask_anchors anchors msk l =
     (if l < length msk \<and> (\<forall>n \<in> set (msk ! l). n < length anchors)
      then Inr (map (\<lambda>n. anchors ! n) (msk ! l))
      else Inl IndexError)"

text \<open>Lines 207 to 215: the candidates of all layers, one after the other.\<close>

fun eval_layers :: "features list \<Rightarrow> nat \<Rightarrow> (real \<times> real) list \<Rightarrow> nat list list \<Rightarrow> nat \<Rightarrow> real \<times> real \<Rightarrow> real \<times> real \<Rightarrow> error + box list \<times> real list list" where
  "eval_layers [] l anchors msk num_classes input_shape image_shape = Inr ([], [])"
| "eval_layers (feats # rest) l anchors msk num_classes input_shape image_shape =
     (case mask_anchors anchors msk l of Inl e \<Rightarrow> Inl e | Inr la \<Rightarrow>
        (case eval_layers rest (Suc l) anchors msk num_classes input_shape image_shape of
           Inl e \<Rightarrow> Inl e
         | Inr (boxes, box_scores) \<Rightarrow>
             let (lb, ls) = yolo_boxes_and_scores feats la num_classes input_shape image_shape
             in Inr (lb @ boxes, ls @ box_scores)))"

text \<open>
  Modelled from the spec: \<^verbatim>\<open>tf.image.non_max_suppression\<close> is an operation of
  TensorFlow and its code is not part of the repository. The spec describes it:
  intersection area is the product of the overlap extents clamped at zero,
  union is the sum of the areas minus the intersection, a zero union gives
  IoU 0; the candidates are sorted by score, descending, the highest-scoring
  remaining box is kept and all others whose IoU with it exceeds the threshold
  are discarded, until the cap is reached or no candidate is left. Boxes are
  \<^verbatim>\<open>(y_min, x_min, y_max, x_max)\<close>; the result is the list of the indices kept.
\<close>

definition corner_iou :: "box \<Rightarrow> box \<Rightarrow> real" where
  "corner_iou a b =
     (case a of (ay1, ax1, ay2, ax2) \<Rightarrow> case b of (by1, bx1, by2, bx2) \<Rightarrow>
        let ih = max 0 (min ay2 by2 - max ay1 by1);
            iw = max 0 (min ax2 bx2 - max ax1 bx1);
            inter = ih * iw;
            union = (ay2 - ay1) * (ax2 - ax1) + (by2 - by1) * (bx2 - bx1) - inter
        in if union = 0 then 0 else inter / union)"

function greedy_nms :: "nat \<Rightarrow> real \<Rightarrow> (nat \<times> box) list \<Rightarrow> nat list" where
  "greedy_nms cap thr [] = []"
| "greedy_nms 0 thr (c # cs) = []"
| "greedy_nms (Suc cap) thr (c # cs) =
     fst c # greedy_nms cap thr (filter (\<lambda>d. \<not> thr < corner_iou (snd c) (snd d)) cs)"
  by pat_completeness auto
termination
  by (relation "measure (\<lambda>(cap, thr, cs). length cs)") (auto simp: less_Suc_eq_le)

definition non_max_suppression :: "box list \<Rightarrow> real list \<Rightarrow> nat \<Rightarrow> real \<Rightarrow> nat list" where
  "non_max_suppression boxes scores max_output_size iou_threshold =
     greedy_nms max_output_size iou_threshold
       (sort_key (\<lambda>c. - (scores ! fst c)) (zip [0..<length boxes] boxes))"

text \<open>
  Lines 224 to 234, the body of the loop over the classes. The three arrays
  \<^verbatim>\<open>class_boxes\<close>, \<^verbatim>\<open>class_box_scores\<close> and \<^verbatim>\<open>classes\<close> are kept as one list
  of rows (box, score, class).
\<close>

type_synonym detection = "box \<times> real \<times> nat"

definition class_detections :: "box list \<Rightarrow> real list list \<Rightarrow> nat \<Rightarrow> nat \<Rightarrow> real \<Rightarrow> real \<Rightarrow> detection list" where
  "class_detections boxes box_scores c max_boxes score_threshold iou_threshold =
     (let kept = filter (\<lambda>p. score_threshold \<le> snd p ! c) (zip boxes box_scores);
          class_boxes = map fst kept;
          class_box_scores = map (\<lambda>p. snd p ! c) kept;
          nms_index = non_max_suppression class_boxes class_box_scores max_boxes iou_threshold
      in map (\<lambda>i. (class_boxes ! i, class_box_scores ! i, c)) nms_index)"

text \<open>Lines 217 to 239.\<close>

definition detection_filter :: "box list \<Rightarrow> real list list \<Rightarrow> nat \<Rightarrow> nat \<Rightarrow> real \<Rightarrow> real \<Rightarrow> detection list" where
  "detection_filter boxes box_scores num_classes max_boxes score_threshold iou_threshold =
     concat (map (\<lambda>c. class_detections boxes box_scores c max_boxes score_threshold iou_threshold)
                 [0..<num_classes])"

text \<open>
  Lines 201 to 215 of \<^verbatim>\<open>yolo_eval\<close>: the candidate boxes and scores of all
  layers. \<^verbatim>\<open>yolo_outputs[0]\<close> raises IndexError on an empty list.
\<close>

definition yolo_candidates :: "features list \<Rightarrow> (real \<times> real) list \<Rightarrow> nat \<Rightarrow> real \<times> real \<Rightarrow> error + box list \<times> real list list" where
  "yolo_candidates yolo_outputs anchors num_classes image_shape =
     (let num_layers = length yolo_outputs;
          msk = anchor_mask num_layers
      in case yolo_outputs of
           [] \<Rightarrow> Inl IndexError
         | f0 # _ \<Rightarrow>
             let input_shape = (real (grid_h f0 * 32), real (grid_w f0 * 32))
             in eval_layers yolo_outputs 0 anchors msk num_classes input_shape image_shape)"

text \<open>\<^verbatim>\<open>yolo_eval\<close> with all its parameters given.\<close>

definition yolo_eval :: "features list \<Rightarrow> (real \<times> real) list \<Rightarrow> nat \<Rightarrow> real \<times> real \<Rightarrow> nat \<Rightarrow> real \<Rightarrow> real \<Rightarrow> error + detection list" where
  "yolo_eval yolo_outputs anchors num_classes image_shape max_boxes score_threshold iou_threshold =
     (case yolo_candidates yolo_outputs anchors num_classes image_shape of
        Inl e \<Rightarrow> Inl e
      | Inr (boxes, box_scores) \<Rightarrow>
          Inr (detection_filter boxes box_scores num_classes max_boxes
                 score_threshold iou_threshold))"





section \<open>The numeric guards of the loss: \<^verbatim>\<open>box_iou\<close> and \<^verbatim>\<open>raw_true_wh\<close>\<close>

text \<open>
  Lines 333 to 354 for one box of \<open>b1\<close> and one of \<open>b2\<close>, both
  \<^verbatim>\<open>(x, y, w, h)\<close>, and the broadcast over the two arrays.
\<close>

definition box_iou1 :: "box \<Rightarrow> box \<Rightarrow> fval" where
  "box_iou1 b1 b2 =
     (case b1 of (x1, y1, w1, h1) \<Rightarrow> case b2 of (x2, y2, w2, h2) \<Rightarrow>
        let b1_mins = box_mins (x1, y1) (w1, h1);
            b1_maxes = box_maxes (x1, y1) (w1, h1);
            b2_mins = box_mins (x2, y2) (w2, h2);
            b2_maxes = box_maxes (x2, y2) (w2, h2);
            intersect_mins = (max (fst b1_mins) (fst b2_mins), max (snd b1_mins) (snd b2_mins));
            intersect_maxes = (min (fst b1_maxes) (fst b2_maxes), min (snd b1_maxes) (snd b2_maxes));
            intersect_wh = (max (fst intersect_maxes - fst intersect_mins) 0,
                            max (snd intersect_maxes - snd intersect_mins) 0);
            intersect_area = fst intersect_wh * snd intersect_wh;
            b1_area = w1 * h1;
            b2_area = w2 * h2
        in fdiv intersect_area (b1_area + b2_area - intersect_area))"

definition box_iou :: "box list \<Rightarrow> box list \<Rightarrow> fval list list" where
  "box_iou b1 b2 = map (\<lambda>p. map (box_iou1 p) b2) b1"

text \<open>
  Float multiplication by a finite factor and the float logarithm:
  \<^verbatim>\<open>log(0) = -inf\<close>, the logarithm of a negative number is NaN.
\<close>

fun fmul :: "fval \<Rightarrow> real \<Rightarrow> fval" where
  "fmul (Fin a) r = Fin (a * r)"
| "fmul PInf r = (if 0 < r then PInf else if r < 0 then NInf else NaN)"
| "fmul NInf r = (if 0 < r then NInf else if r < 0 then PInf else NaN)"
| "fmul NaN r = NaN"

fun flog :: "fval \<Rightarrow> fval" where
  "flog (Fin a) = (if 0 < a then Fin (ln a) else if a = 0 then NInf else NaN)"
| "flog PInf = PInf"
| "flog NInf = NaN"
| "flog NaN = NaN"

text \<open>
  \<^verbatim>\<open>K.switch\<close> with an array condition casts the condition to bool (non-zero is
  true) and selects element by element.
\<close>

definition K_switch :: "real \<Rightarrow> fval \<Rightarrow> fval \<Rightarrow> fval" where
  "K_switch condition then_expression else_expression =
     (if condition \<noteq> 0 then then_expression else else_expression)"

text \<open>
  Lines 400 to 402 at one position of \<^verbatim>\<open>y_true[l]\<close>: \<open>wh\<close> are the channels
  2 and 3 there, \<open>object_mask\<close> is channel 4, \<open>anchor\<close> the anchor of the slot and
  \<open>input_shape\<close> is (height, width).
\<close>

definition raw_true_wh :: "real \<Rightarrow> real \<times> real \<Rightarrow> real \<times> real \<Rightarrow> real \<times> real \<Rightarrow> fval \<times> fval" where
  "raw_true_wh object_mask wh anchor input_shape =
     (let raw = (flog (fmul (fdiv (fst wh) (fst anchor)) (snd input_shape)),
                 flog (fmul (fdiv (snd wh) (snd anchor)) (fst input_shape)))
      in (K_switch object_mask (fst raw) (Fin 0), K_switch object_mask (snd raw) (Fin 0)))"

section \<open>Example inputs\<close>

text \<open>
  The anchors of the tiny model and of the full model, and a feature array with
  a single grid cell, three anchor slots and one class: every raw value is 0
  except the class value of the first slot.
\<close>

definition tiny_anchors :: "(real \<times> real) list" where
  "tiny_anchors = [(10, 14), (23, 27), (37, 58), (81, 82), (135, 169), (344, 319)]"

definition yolo_anchors :: "(real \<times> real) list" where
  "yolo_anchors = [(10, 13), (16, 30), (33, 23), (30, 61), (62, 45), (59, 119),
                   (116, 90), (156, 198), (373, 326)]"

definition feats0 :: features where
  "feats0 = \<lparr>grid_h = 1, grid_w = 1,
             raw = [[[[0, 0, 0, 0, 0, 1, 0, 0, 0, 0, 0, 0, 0, 0, 0, 0, 0, 0]]]]\<rparr>"

section \<open>The class-id assertion of the target assigner\<close>

text \<open>Each step of the assigner can fail in one way only, and never with AssertionError.\<close>

lemma write_target_err: "write_target y b j i k row c = Inl e \<Longrightarrow> e = IndexError"
  by (auto simp: write_target_def np_index_def Let_def split: prod.splits sum.splits if_splits)

lemma grid_shape_err: "grid_shape s l = Inl e \<Longrightarrow> e = KeyError"
  by (auto simp: grid_shape_def split: if_splits)

lemma assign_layers_err:
  "assign_layers s msk b row n ls y = Inl e \<Longrightarrow> e \<noteq> AssertionError"
proof (induction ls arbitrary: y)
  case Nil
  then show ?case by simp
next
  case (Cons l ls)
  then show ?case
    by (auto simp: Let_def split: if_splits sum.splits dest: write_target_err grid_shape_err)
qed

lemma assign_rows_err:
  "assign_rows s msk b layers rows ns y = Inl e \<Longrightarrow> e \<noteq> AssertionError"
proof (induction s msk b layers rows ns y rule: assign_rows.induct)
  case (1 s msk b layers row rows n ns y)
  then show ?case
    by (auto split: sum.splits dest: assign_layers_err)
qed simp_all

lemma argmax_err: "argmax xs = Inl e \<Longrightarrow> e = ValueError"
  by (cases xs) auto

lemma best_anchor_err: "best_anchor anchors whs = Inl e \<Longrightarrow> e = ValueError"
  by (induction whs arbitrary: e) (auto split: sum.splits dest: argmax_err)

lemma assign_images_err:
  "assign_images s anchors msk layers b imgs y = Inl e \<Longrightarrow> e \<noteq> AssertionError"
proof (induction imgs arbitrary: b y)
  case Nil
  then show ?case by simp
next
  case (Cons img imgs)
  then show ?case
    by (auto simp: Let_def split: if_splits sum.splits dest: best_anchor_err assign_rows_err)
qed

lemma init_y_true_err: "init_y_true m s msk nc ls = Inl e \<Longrightarrow> e = KeyError"
  by (induction ls arbitrary: e) (auto split: sum.splits dest: grid_shape_err)

text \<open>
  Claim C7. \<^verbatim>\<open>preprocess_true_boxes\<close> fails with the assertion error exactly when
  some row of the input, in some image, has a class id that is not less than
  \<open>num_classes\<close>. The assertion is the first statement of the function: the
  result is then the error alone, no target array exists.
\<close>

theorem preprocess_assertion_iff:
  "preprocess_true_boxes true_boxes input_shape anchors num_classes = Inl AssertionError
   \<longleftrightarrow> (\<exists>img \<in> set true_boxes. \<exists>r \<in> set img. real num_classes \<le> class_id r)"
  by (auto simp: preprocess_true_boxes_def Let_def not_less split: sum.splits
           dest: init_y_true_err assign_images_err)

theorem preprocess_assertion_iff_witness:
  "preprocess_true_boxes
     [[\<lparr>x_min = 10, y_min = 10, x_max = 50, y_max = 60, class_id = 5\<rparr>]] (416, 416) tiny_anchors 3
   = Inl AssertionError
   \<and> preprocess_true_boxes
     [[\<lparr>x_min = 10, y_min = 10, x_max = 50, y_max = 60, class_id = 2\<rparr>]] (416, 416) tiny_anchors 3
   \<noteq> Inl AssertionError"
  using preprocess_assertion_iff
          [of "[[\<lparr>x_min = 10, y_min = 10, x_max = 50, y_max = 60, class_id = 5\<rparr>]]"
              "(416, 416)" tiny_anchors 3]
        preprocess_assertion_iff
          [of "[[\<lparr>x_min = 10, y_min = 10, x_max = 50, y_max = 60, class_id = 2\<rparr>]]"
              "(416, 416)" tiny_anchors 3]
  by simp

text \<open>
  Claim C10. The assertion looks at every row, also at a row whose width is not
  positive (a padding row of zeros, a degenerate box): such a row is not kept
  for anchor matching, and still its class id, when it is not less than
  \<open>num_classes\<close>, makes the whole call fail with the assertion error.
\<close>

theorem degenerate_row_class_checked:
  assumes "img \<in> set true_boxes" and "r \<in> set img"
    and "x_max r - x_min r \<le> 0" and "real num_classes \<le> class_id r"
  shows "r \<notin> set (filter valid_mask img)
       \<and> preprocess_true_boxes true_boxes input_shape anchors num_classes = Inl AssertionError"
proof -
  have "\<not> valid_mask r"
    using assms(3) by (simp add: valid_mask_def boxes_wh_def)
  moreover have "\<not> (\<forall>img \<in> set true_boxes. \<forall>r \<in> set img. class_id r < real num_classes)"
    using assms(1,2,4) by (auto simp: not_less)
  ultimately show ?thesis
    by (simp add: preprocess_true_boxes_def)
qed

theorem degenerate_row_class_checked_witness:
  "\<lparr>x_min = 5, y_min = 5, x_max = 5, y_max = 9, class_id = 7\<rparr>
     \<notin> set (filter valid_mask
          [\<lparr>x_min = 10, y_min = 10, x_max = 50, y_max = 60, class_id = 2\<rparr>,
           \<lparr>x_min = 5, y_min = 5, x_max = 5, y_max = 9, class_id = 7\<rparr>])
   \<and> preprocess_true_boxes
        [[\<lparr>x_min = 10, y_min = 10, x_max = 50, y_max = 60, class_id = 2\<rparr>,
          \<lparr>x_min = 5, y_min = 5, x_max = 5, y_max = 9, class_id = 7\<rparr>]]
        (416, 416) yolo_anchors 3
      = Inl AssertionError"
  using degenerate_row_class_checked
          [of "[\<lparr>x_min = 10, y_min = 10, x_max = 50, y_max = 60, class_id = 2\<rparr>,
                \<lparr>x_min = 5, y_min = 5, x_max = 5, y_max = 9, class_id = 7\<rparr>]"
              "[[\<lparr>x_min = 10, y_min = 10, x_max = 50, y_max = 60, class_id = 2\<rparr>,
                 \<lparr>x_min = 5, y_min = 5, x_max = 5, y_max = 9, class_id = 7\<rparr>]]"
              "\<lparr>x_min = 5, y_min = 5, x_max = 5, y_max = 9, class_id = 7\<rparr>"
              3 "(416, 416)" yolo_anchors]
  by simp

section \<open>Corner form, centre form and back\<close>

text \<open>
  Claim C3, as the code has it. The centre that the target assigner computes is
  the floor of the midpoint (\<^verbatim>\<open>// 2\<close>), the size is the exact difference. Going
  back to corners therefore gives the original corners moved down by the
  fractional part of the midpoint, which is less than 1, on each axis; the round
  trip is the identity exactly when both midpoints are whole numbers.
\<close>

theorem corner_center_roundtrip:
  "center_to_corners (boxes_xy r) (boxes_wh r) =
     (x_min r - frac ((x_min r + x_max r) / 2), y_min r - frac ((y_min r + y_max r) / 2),
      x_max r - frac ((x_min r + x_max r) / 2), y_max r - frac ((y_min r + y_max r) / 2))
   \<and> 0 \<le> frac ((x_min r + x_max r) / 2) \<and> frac ((x_min r + x_max r) / 2) < 1
   \<and> 0 \<le> frac ((y_min r + y_max r) / 2) \<and> frac ((y_min r + y_max r) / 2) < 1
   \<and> (center_to_corners (boxes_xy r) (boxes_wh r) = corners r
        \<longleftrightarrow> (x_min r + x_max r) / 2 \<in> \<int> \<and> (y_min r + y_max r) / 2 \<in> \<int>)"
proof -
  have eq: "center_to_corners (boxes_xy r) (boxes_wh r) =
     (x_min r - frac ((x_min r + x_max r) / 2), y_min r - frac ((y_min r + y_max r) / 2),
      x_max r - frac ((x_min r + x_max r) / 2), y_max r - frac ((y_min r + y_max r) / 2))"
    by (simp add: center_to_corners_def boxes_xy_def boxes_wh_def box_mins_def box_maxes_def
                  floor_div2_def frac_def field_simps)
  have iff: "center_to_corners (boxes_xy r) (boxes_wh r) = corners r
        \<longleftrightarrow> (x_min r + x_max r) / 2 \<in> \<int> \<and> (y_min r + y_max r) / 2 \<in> \<int>"
    unfolding eq corners_def by (auto simp: frac_eq_0_iff)
  show ?thesis
    using eq iff by (simp add: frac_lt_1)
qed

theorem corner_center_roundtrip_witness:
  "center_to_corners (boxes_xy \<lparr>x_min = 100, y_min = 100, x_max = 140, y_max = 160, class_id = 2\<rparr>)
                     (boxes_wh \<lparr>x_min = 100, y_min = 100, x_max = 140, y_max = 160, class_id = 2\<rparr>)
   = corners \<lparr>x_min = 100, y_min = 100, x_max = 140, y_max = 160, class_id = 2\<rparr>"
  using corner_center_roundtrip
          [of "\<lparr>x_min = 100, y_min = 100, x_max = 140, y_max = 160, class_id = 2\<rparr>"]
  by (simp add: corners_def frac_def)

text \<open>
  The claim as the spec states it fails: for the corners (0, 0, 3, 4) the centre is
  (1, 2) and not the midpoint (3/2, 2), and the corners that come back are
  (-1/2, 0, 5/2, 4).
\<close>

theorem corner_center_roundtrip_counterexample:
  "center_to_corners (boxes_xy \<lparr>x_min = 0, y_min = 0, x_max = 3, y_max = 4, class_id = 0\<rparr>)
                     (boxes_wh \<lparr>x_min = 0, y_min = 0, x_max = 3, y_max = 4, class_id = 0\<rparr>)
   = (- 1 / 2, 0, 5 / 2, 4)
   \<and> center_to_corners (boxes_xy \<lparr>x_min = 0, y_min = 0, x_max = 3, y_max = 4, class_id = 0\<rparr>)
                       (boxes_wh \<lparr>x_min = 0, y_min = 0, x_max = 3, y_max = 4, class_id = 0\<rparr>)
   \<noteq> corners \<lparr>x_min = 0, y_min = 0, x_max = 3, y_max = 4, class_id = 0\<rparr>"
  by (simp add: center_to_corners_def boxes_xy_def boxes_wh_def corners_def box_mins_def
                box_maxes_def floor_div2_def)

section \<open>The decoder formulas\<close>

lemma concat_replicate_single: "concat (replicate n [x]) = replicate n x"
  by (induction n) simp_all

text \<open>The grid holds the column number and the row number of each cell, in this order.\<close>

lemma grid_nth:
  assumes "j < gh" and "i < gw"
  shows "grid (gh, gw) ! j ! i = [[real i, real j]]"
  using assms
  by (simp add: grid_def concatenate_last_def grid_x_def grid_y_def arange_def
                concat_replicate_single)

lemma length_grid: "length (grid (gh, gw)) = gh"
  by (simp add: grid_def concatenate_last_def grid_x_def grid_y_def arange_def
                concat_replicate_single)

lemma length_grid_row: "j < gh \<Longrightarrow> length (grid (gh, gw) ! j) = gw"
  by (simp add: grid_def concatenate_last_def grid_x_def grid_y_def arange_def
                concat_replicate_single)

lemma length_reshape_anchors: "length (reshape_anchors k n xs) = k"
  by (induction k arbitrary: xs) simp_all

lemma reshape_anchors_nth:
  "a < k \<Longrightarrow> reshape_anchors k n xs ! a = take n (drop (a * n) xs)"
proof (induction k arbitrary: xs a)
  case 0
  then show ?case by simp
next
  case (Suc k)
  show ?case
  proof (cases a)
    case 0
    then show ?thesis by simp
  next
    case (Suc a')
    with Suc.prems have "a' < k" by simp
    then show ?thesis using Suc.IH[of a' "drop n xs"] Suc by (simp add: add.commute)
  qed
qed

lemma yolo_head_nth:
  assumes "b < length (raw feats)" and "length (raw feats ! b) = grid_h feats"
    and "j < grid_h feats" and "length (raw feats ! b ! j) = grid_w feats"
    and "i < grid_w feats" and "k < length anchors"
  shows "yolo_head feats anchors num_classes input_shape ! b ! j ! i ! k =
         decode_slot (grid_h feats, grid_w feats) input_shape [real i, real j] (anchors ! k)
           (take (num_classes + 5) (drop (k * (num_classes + 5)) (raw feats ! b ! j ! i)))"
  using assms
  by (simp add: yolo_head_def Let_def length_grid length_grid_row grid_nth
                length_reshape_anchors reshape_anchors_nth)

lemma class_probs_eq:
  assumes "length f = na * (nc + 5)" and "k < na"
  shows "map sigmoid (drop 5 (take (nc + 5) (drop (k * (nc + 5)) f)))
         = map (\<lambda>c. sigmoid (f ! (k * (nc + 5) + (5 + c)))) [0..<nc]"
proof -
  have "(k + 1) * (nc + 5) \<le> na * (nc + 5)" using assms(2) by (intro mult_le_mono1) simp
  then have len: "k * (nc + 5) + (nc + 5) \<le> length f" using assms(1) by simp
  show ?thesis
  proof (rule nth_equalityI)
    show "length (map sigmoid (drop 5 (take (nc + 5) (drop (k * (nc + 5)) f)))) =
          length (map (\<lambda>c. sigmoid (f ! (k * (nc + 5) + (5 + c)))) [0..<nc])"
      using len by simp
  next
    fix c assume "c < length (map sigmoid (drop 5 (take (nc + 5) (drop (k * (nc + 5)) f))))"
    then have c: "c < nc" using len by simp
    then show "map sigmoid (drop 5 (take (nc + 5) (drop (k * (nc + 5)) f))) ! c =
               map (\<lambda>c. sigmoid (f ! (k * (nc + 5) + (5 + c)))) [0..<nc] ! c"
      using len by (simp add: add.commute add.left_commute)
  qed
qed

text \<open>
  Claim C8. For a feature array whose nested lists have the shape it declares
  and a non-zero, positive network input shape, the value that \<^verbatim>\<open>yolo_head\<close>
  returns at image \<open>b\<close>, grid row \<open>j\<close>, grid column \<open>i\<close> and anchor slot
  \<open>k\<close> is: centre = (sigmoid of the raw xy + (column, row)) divided by (grid
  width, grid height); size = exp of the raw wh times the anchor size divided by
  the input (width, height); objectness = sigmoid of raw channel 4; the
  probability of class \<open>c\<close> = sigmoid of raw channel \<open>5 + c\<close> alone, so no
  class value depends on another class's raw value (no softmax).
\<close>

theorem yolo_head_decodes:
  assumes "b < length (raw feats)" and "length (raw feats ! b) = grid_h feats"
    and "j < grid_h feats" and "length (raw feats ! b ! j) = grid_w feats"
    and "i < grid_w feats" and "k < length anchors"
    and "length (raw feats ! b ! j ! i) = length anchors * (num_classes + 5)"
    and "0 < fst input_shape" and "0 < snd input_shape"
  shows "yolo_head feats anchors num_classes input_shape ! b ! j ! i ! k =
     (let f = (\<lambda>c. raw feats ! b ! j ! i ! (k * (num_classes + 5) + c)) in
      \<lparr>box_xy = ((sigmoid (f 0) + real i) / real (grid_w feats),
                 (sigmoid (f 1) + real j) / real (grid_h feats)),
       box_wh = (exp (f 2) * fst (anchors ! k) / snd input_shape,
                 exp (f 3) * snd (anchors ! k) / fst input_shape),
       box_confidence = sigmoid (f 4),
       box_class_probs = map (\<lambda>c. sigmoid (f (5 + c))) [0..<num_classes]\<rparr>)"
proof -
  have "(k + 1) * (num_classes + 5) \<le> length anchors * (num_classes + 5)"
    using assms(6) by (intro mult_le_mono1) simp
  then have len: "k * (num_classes + 5) + (num_classes + 5) \<le> length (raw feats ! b ! j ! i)"
    using assms(7) by simp
  show ?thesis
    unfolding yolo_head_nth[OF assms(1-6)] decode_slot_def Let_def
    using len class_probs_eq[OF assms(7) assms(6)]
    by simp
qed

lemma sigmoid_0: "sigmoid 0 = 1 / 2"
  by (simp add: sigmoid_def)

theorem yolo_head_decodes_witness:
  "yolo_head feats0 [(81, 82), (135, 169), (344, 319)] 1 (32, 32) ! 0 ! 0 ! 0 ! 1 =
     \<lparr>box_xy = (1 / 2, 1 / 2), box_wh = (135 / 32, 169 / 32),
      box_confidence = 1 / 2, box_class_probs = [1 / 2]\<rparr>"
  using yolo_head_decodes [of 0 feats0 0 0 1 "[(81, 82), (135, 169), (344, 319)]" 1 "(32, 32)"]
  by (simp add: feats0_def sigmoid_0)

section \<open>The letterbox correction does not clamp\<close>








section \<open>The defaults of the detection filter\<close>

lemma sigmoid_1_bounds: "3 / 5 \<le> sigmoid 1 \<and> sigmoid 1 < 1"
proof -
  define e :: real where "e = exp (- 1)"
  have "1 + (1::real) \<le> exp 1" by (rule exp_ge_add_one_self)
  then have le: "e \<le> 1 / 2"
    by (simp add: e_def exp_minus field_simps)
  have pos: "0 < e" by (simp add: e_def)
  have s: "sigmoid 1 = 1 / (1 + e)" by (simp add: sigmoid_def e_def)
  have "3 / 5 \<le> 1 / (1 + e)" using le pos by (simp add: pos_le_divide_eq)
  moreover have "1 / (1 + e) < 1" using pos by (simp add: pos_divide_less_eq)
  ultimately show ?thesis by (simp add: s)
qed

lemma greedy_nms_pos:
  "0 < cap \<Longrightarrow> greedy_nms cap thr (c # cs) =
     fst c # greedy_nms (cap - 1) thr (filter (\<lambda>d. \<not> thr < corner_iou (snd c) (snd d)) cs)"
  by (cases cap) simp_all

text \<open>The three candidates that \<open>feats0\<close> decodes to, and their scores.\<close>

lemma heads0:
  "yolo_head feats0 [(81, 82), (135, 169), (344, 319)] 1 (32, 32) =
    [[[[\<lparr>box_xy = (1 / 2, 1 / 2), box_wh = (81 / 32, 82 / 32),
         box_confidence = 1 / 2, box_class_probs = [sigmoid 1]\<rparr>,
        \<lparr>box_xy = (1 / 2, 1 / 2), box_wh = (135 / 32, 169 / 32),
         box_confidence = 1 / 2, box_class_probs = [1 / 2]\<rparr>,
        \<lparr>box_xy = (1 / 2, 1 / 2), box_wh = (344 / 32, 319 / 32),
         box_confidence = 1 / 2, box_class_probs = [1 / 2]\<rparr>]]]]"
  by (simp add: yolo_head_def feats0_def Let_def grid_def grid_x_def grid_y_def arange_def
       concatenate_last_def decode_slot_def sigmoid_0 numeral_3_eq_3)

lemma cands0:
  "yolo_candidates [feats0] tiny_anchors 1 (32, 32)
     = Inr ([yolo_correct_boxes (1 / 2, 1 / 2) (81 / 32, 82 / 32) (32, 32) (32, 32),
             yolo_correct_boxes (1 / 2, 1 / 2) (135 / 32, 169 / 32) (32, 32) (32, 32),
             yolo_correct_boxes (1 / 2, 1 / 2) (344 / 32, 319 / 32) (32, 32) (32, 32)],
            [[sigmoid 1 / 2], [1 / 4], [1 / 4]])"
  using heads0
  by (simp add: yolo_candidates_def anchor_mask_def mask_anchors_def tiny_anchors_def
        yolo_boxes_and_scores_def Let_def feats0_def)






section \<open>The numeric guards\<close>

lemma overlap_le:
  fixes c1 s1 c2 s2 :: real
  assumes "0 \<le> s1" and "0 \<le> s2"
  shows "0 \<le> max (min (c1 + s1 / 2) (c2 + s2 / 2) - max (c1 - s1 / 2) (c2 - s2 / 2)) 0"
    and "max (min (c1 + s1 / 2) (c2 + s2 / 2) - max (c1 - s1 / 2) (c2 - s2 / 2)) 0 \<le> s1"
    and "max (min (c1 + s1 / 2) (c2 + s2 / 2) - max (c1 - s1 / 2) (c2 - s2 / 2)) 0 \<le> s2"
  using assms by (auto simp: max_def min_def)

text \<open>
  For boxes of non-negative size the union is zero exactly when both areas are
  zero; then the quotient is 0 / 0.
\<close>

lemma box_iou1_cases:
  assumes "0 \<le> w1" and "0 \<le> h1" and "0 \<le> w2" and "0 \<le> h2"
  shows "(box_iou1 (x1, y1, w1, h1) (x2, y2, w2, h2) = NaN \<longleftrightarrow> w1 * h1 = 0 \<and> w2 * h2 = 0)
       \<and> (w1 * h1 \<noteq> 0 \<or> w2 * h2 \<noteq> 0 \<longrightarrow>
            (\<exists>q. box_iou1 (x1, y1, w1, h1) (x2, y2, w2, h2) = Fin q \<and> 0 \<le> q \<and> q \<le> 1))"
proof -
  define iw where "iw = max (min (x1 + w1 / 2) (x2 + w2 / 2) - max (x1 - w1 / 2) (x2 - w2 / 2)) 0"
  define ih where "ih = max (min (y1 + h1 / 2) (y2 + h2 / 2) - max (y1 - h1 / 2) (y2 - h2 / 2)) 0"
  define u where "u = w1 * h1 + w2 * h2 - iw * ih"
  have iw: "0 \<le> iw" "iw \<le> w1" "iw \<le> w2"
    unfolding iw_def using overlap_le[OF assms(1) assms(3)] by simp_all
  have ih: "0 \<le> ih" "ih \<le> h1" "ih \<le> h2"
    unfolding ih_def using overlap_le[OF assms(2) assms(4)] by simp_all
  have i0: "0 \<le> iw * ih" using iw(1) ih(1) by simp
  have i1: "iw * ih \<le> w1 * h1" using iw ih assms by (intro mult_mono) simp_all
  have i2: "iw * ih \<le> w2 * h2" using iw ih assms by (intro mult_mono) simp_all
  have a1: "0 \<le> w1 * h1" and a2: "0 \<le> w2 * h2" using assms by simp_all
  have eq: "box_iou1 (x1, y1, w1, h1) (x2, y2, w2, h2) = fdiv (iw * ih) u"
    by (simp add: box_iou1_def box_mins_def box_maxes_def Let_def iw_def ih_def u_def)
  have u0: "u = 0 \<longleftrightarrow> w1 * h1 = 0 \<and> w2 * h2 = 0"
    unfolding u_def using i0 i1 i2 a1 a2 by linarith
  have nan: "fdiv (iw * ih) u = NaN \<longleftrightarrow> u = 0"
    using i0 u0 i1 by (auto simp: fdiv_def)
  have fin: "u \<noteq> 0 \<Longrightarrow> fdiv (iw * ih) u = Fin (iw * ih / u) \<and> 0 \<le> iw * ih / u \<and> iw * ih / u \<le> 1"
  proof -
    assume "u \<noteq> 0"
    moreover have "iw * ih \<le> u" unfolding u_def using i1 i2 by linarith
    ultimately have "0 < u" using i0 by linarith
    then show ?thesis using i0 \<open>iw * ih \<le> u\<close> by (simp add: fdiv_def)
  qed
  show ?thesis unfolding eq using nan u0 fin by auto
qed

text \<open>
  Claim C9, as the code has it. In the loss, the raw width and height target (the
  log term) is 0 wherever the objectness mask is 0, whatever the target size,
  the anchor and the input shape are. \<^verbatim>\<open>box_iou\<close> has no guard: for two boxes of
  non-negative size it yields NaN (0 / 0) exactly when both areas, and so the
  union, are zero, and a finite value between 0 and 1 otherwise.
\<close>

theorem loss_numeric_guards:
  "raw_true_wh 0 wh anchor input_shape = (Fin 0, Fin 0)
   \<and> (0 \<le> w1 \<and> 0 \<le> h1 \<and> 0 \<le> w2 \<and> 0 \<le> h2 \<longrightarrow>
        (box_iou1 (x1, y1, w1, h1) (x2, y2, w2, h2) = NaN \<longleftrightarrow> w1 * h1 = 0 \<and> w2 * h2 = 0)
      \<and> (w1 * h1 \<noteq> 0 \<or> w2 * h2 \<noteq> 0 \<longrightarrow>
            (\<exists>q. box_iou1 (x1, y1, w1, h1) (x2, y2, w2, h2) = Fin q \<and> 0 \<le> q \<and> q \<le> 1)))"
  using box_iou1_cases[of w1 h1 w2 h2 x1 y1 x2 y2]
  by (simp add: raw_true_wh_def K_switch_def Let_def)

theorem loss_numeric_guards_witness:
  "raw_true_wh 0 (0, 0) (10, 14) (416, 416) = (Fin 0, Fin 0)
   \<and> box_iou1 (1 / 2, 1 / 2, 0, 0) (1 / 4, 1 / 4, 0, 1 / 10) = NaN
   \<and> (\<exists>q. box_iou1 (1 / 2, 1 / 2, 1 / 5, 1 / 5) (1 / 2, 1 / 2, 1 / 10, 1 / 10) = Fin q
          \<and> 0 \<le> q \<and> q \<le> 1)"
  using loss_numeric_guards
          [of "(0, 0)" "(10, 14)" "(416, 416)" 0 0 0 "1 / 10" "1 / 2" "1 / 2" "1 / 4" "1 / 4"]
        loss_numeric_guards
          [of "(0, 0)" "(10, 14)" "(416, 416)" "1 / 5" "1 / 5" "1 / 10" "1 / 10"
              "1 / 2" "1 / 2" "1 / 2" "1 / 2"]
  by simp

text \<open>
  The claim as the spec states it fails: two boxes of zero area have a zero
  union, and \<^verbatim>\<open>box_iou\<close> gives NaN for them, not 0.
\<close>

theorem iou_zero_union_counterexample:
  "box_iou1 (1 / 2, 1 / 2, 0, 0) (1 / 4, 1 / 4, 0, 1 / 10) = NaN
   \<and> box_iou1 (1 / 2, 1 / 2, 0, 0) (1 / 4, 1 / 4, 0, 1 / 10) \<noteq> Fin 0"
  by (simp add: box_iou1_def box_mins_def box_maxes_def fdiv_def Let_def)

section \<open>The contract of the detection filter\<close>

lemma greedy_nms_subset: "set (greedy_nms cap thr cs) \<subseteq> fst ` set cs"
  by (induction cap thr cs rule: greedy_nms.induct) auto

lemma greedy_nms_length: "length (greedy_nms cap thr cs) \<le> cap"
  by (induction cap thr cs rule: greedy_nms.induct) auto

lemma greedy_nms_pairwise:
  assumes "\<forall>d \<in> set cs. snd d = bx (fst d)"
  shows "sorted_wrt (\<lambda>i j. \<not> thr < corner_iou (bx i) (bx j)) (greedy_nms cap thr cs)"
  using assms
proof (induction cap thr cs rule: greedy_nms.induct)
  case (3 cap thr c cs)
  let ?rest = "filter (\<lambda>d. \<not> thr < corner_iou (snd c) (snd d)) cs"
  have rest: "sorted_wrt (\<lambda>i j. \<not> thr < corner_iou (bx i) (bx j)) (greedy_nms cap thr ?rest)"
    using 3 by simp
  have "\<not> thr < corner_iou (bx (fst c)) (bx j)" if "j \<in> set (greedy_nms cap thr ?rest)" for j
  proof -
    from that greedy_nms_subset[of cap thr ?rest]
    obtain d where d: "d \<in> set ?rest" "fst d = j" by auto
    then have "\<not> thr < corner_iou (snd c) (snd d)" "d \<in> set cs" by simp_all
    moreover have "snd c = bx (fst c)" "snd d = bx (fst d)" using 3(2) \<open>d \<in> set cs\<close> by simp_all
    ultimately show ?thesis using d(2) by simp
  qed
  then show ?case using rest by simp
qed simp_all

lemma nms_index_bound:
  "set (non_max_suppression boxes scores cap thr) \<subseteq> {0..<length boxes}"
proof -
  have "fst ` set (zip [0..<length boxes] boxes) \<subseteq> {0..<length boxes}"
    by (auto simp: in_set_zip)
  then show ?thesis
    unfolding non_max_suppression_def
    using greedy_nms_subset[of cap thr "sort_key (\<lambda>c. - (scores ! fst c)) (zip [0..<length boxes] boxes)"]
    by auto
qed

lemma nms_length: "length (non_max_suppression boxes scores cap thr) \<le> cap"
  unfolding non_max_suppression_def by (rule greedy_nms_length)

lemma nms_pairwise:
  "sorted_wrt (\<lambda>i j. \<not> thr < corner_iou (boxes ! i) (boxes ! j))
     (non_max_suppression boxes scores cap thr)"
  unfolding non_max_suppression_def
  by (rule greedy_nms_pairwise) (auto simp: in_set_zip)

lemma class_detections_class:
  "d \<in> set (class_detections boxes scores c mb st it) \<Longrightarrow> snd (snd d) = c"
  by (auto simp: class_detections_def Let_def)

lemma class_detections_length:
  "length (class_detections boxes scores c mb st it) \<le> mb"
  by (simp add: class_detections_def Let_def nms_length)

lemma class_detections_pairwise:
  "sorted_wrt (\<lambda>a b. \<not> it < corner_iou (fst a) (fst b)) (class_detections boxes scores c mb st it)"
  unfolding class_detections_def Let_def
  by (simp add: sorted_wrt_map nms_pairwise)

lemma class_detections_origin:
  assumes "d \<in> set (class_detections boxes scores c mb st it)"
  shows "\<exists>n < length boxes. n < length scores \<and> fst d = boxes ! n \<and> fst (snd d) = scores ! n ! c
            \<and> st \<le> scores ! n ! c"
proof -
  let ?kept = "filter (\<lambda>p. st \<le> snd p ! c) (zip boxes scores)"
  from assms obtain i where i: "i \<in> set (non_max_suppression (map fst ?kept) (map (\<lambda>p. snd p ! c) ?kept) mb it)"
    and d: "d = (map fst ?kept ! i, map (\<lambda>p. snd p ! c) ?kept ! i, c)"
    by (auto simp: class_detections_def Let_def)
  from i nms_index_bound[of "map fst ?kept" "map (\<lambda>p. snd p ! c) ?kept" mb it]
  have il: "i < length ?kept" by auto
  then have mem: "?kept ! i \<in> set ?kept" by (rule nth_mem)
  then have z: "?kept ! i \<in> set (zip boxes scores)" and thr: "st \<le> snd (?kept ! i) ! c"
    by simp_all
  from z obtain n where n: "n < length boxes" "n < length scores" "?kept ! i = (boxes ! n, scores ! n)"
    by (auto simp: in_set_zip)
  show ?thesis using n thr d il by (intro exI[of _ n]) simp
qed

lemma filter_concat_class:
  assumes "distinct cs" and "c \<in> set cs" and "\<And>c' d. d \<in> set (f c') \<Longrightarrow> cls d = c'"
  shows "filter (\<lambda>d. cls d = c) (concat (map f cs)) = f c"
  using assms(1,2)
proof (induction cs)
  case Nil
  then show ?case by simp
next
  case (Cons a cs)
  have all: "filter (\<lambda>d. cls d = c) (f c) = f c"
    using assms(3) by (simp add: filter_id_conv)
  have none: "c' \<noteq> c \<Longrightarrow> filter (\<lambda>d. cls d = c) (f c') = []" for c'
    using assms(3) by (auto simp: filter_empty_conv)
  have none_rest: "c \<notin> set xs \<Longrightarrow> filter (\<lambda>d. cls d = c) (concat (map f xs)) = []" for xs
    using assms(3) by (induction xs) (auto simp: filter_empty_conv)
  show ?case
  proof (cases "a = c")
    case True
    then have "c \<notin> set cs" using Cons.prems by simp
    then show ?thesis using True all none_rest by simp
  next
    case False
    then show ?thesis using Cons none[of a] by simp
  qed
qed

lemma detection_filter_class:
  assumes "c < nc"
  shows "filter (\<lambda>d. snd (snd d) = c) (detection_filter boxes scores nc mb st it)
         = class_detections boxes scores c mb st it"
  unfolding detection_filter_def
  using assms
  by (intro filter_concat_class) (auto dest: class_detections_class)

lemma class_detections_column:
  assumes "map (\<lambda>s. s ! c) scores' = map (\<lambda>s. s ! c) scores"
  shows "class_detections boxes scores' c mb st it = class_detections boxes scores c mb st it"
proof -
  have len: "length scores' = length scores" using assms by (metis length_map)
  have z: "map (\<lambda>p. (fst p, snd p ! c)) (zip boxes scores') = map (\<lambda>p. (fst p, snd p ! c)) (zip boxes scores)"
  proof -
    have "map (\<lambda>p. (fst p, snd p ! c)) (zip boxes ss) = zip boxes (map (\<lambda>s. s ! c) ss)" for ss :: "real list list"
      by (simp add: zip_map2 case_prod_unfold)
    then show ?thesis using assms by simp
  qed
  have k: "map (\<lambda>p. (fst p, snd p ! c)) (filter (\<lambda>p. st \<le> snd p ! c) (zip boxes ss))
         = filter (\<lambda>q. st \<le> snd q) (map (\<lambda>p. (fst p, snd p ! c)) (zip boxes ss))" for ss :: "real list list"
    by (simp add: filter_map comp_def)
  have kept: "map (\<lambda>p. (fst p, snd p ! c)) (filter (\<lambda>p. st \<le> snd p ! c) (zip boxes scores'))
            = map (\<lambda>p. (fst p, snd p ! c)) (filter (\<lambda>p. st \<le> snd p ! c) (zip boxes scores))"
    unfolding k z ..
  have b: "map fst (filter (\<lambda>p. st \<le> snd p ! c) (zip boxes ss))
           = map fst (map (\<lambda>p. (fst p, snd p ! c)) (filter (\<lambda>p. st \<le> snd p ! c) (zip boxes ss)))" for ss :: "real list list"
    by (simp add: comp_def)
  have s: "map (\<lambda>p. snd p ! c) (filter (\<lambda>p. st \<le> snd p ! c) (zip boxes ss))
           = map snd (map (\<lambda>p. (fst p, snd p ! c)) (filter (\<lambda>p. st \<le> snd p ! c) (zip boxes ss)))" for ss :: "real list list"
    by (simp add: comp_def)
  show ?thesis
    unfolding class_detections_def Let_def b s kept ..
qed

text \<open>
  Claim C2. Let \<^verbatim>\<open>yolo_eval\<close> return the detections \<open>dets\<close> and let \<open>ds\<close> be
  those of class \<open>c\<close>, in the order of the output. Then no two boxes of \<open>ds\<close>
  have an IoU above \<open>iou_threshold\<close>; every detection of \<open>ds\<close> is a candidate
  box with its score for class \<open>c\<close> (objectness times class probability), and
  this score is at least \<open>score_threshold\<close>; \<open>ds\<close> has at most \<open>max_boxes\<close>
  entries; and \<open>ds\<close> is what the filter computes for class \<open>c\<close> from the
  candidate boxes and the scores of class \<open>c\<close> alone: replacing the scores of
  all other classes by anything leaves \<open>ds\<close> as it is, so no box is suppressed
  by a box of another class.
\<close>

theorem yolo_eval_nms_contract:
  assumes ev: "yolo_eval yolo_outputs anchors num_classes image_shape max_boxes score_threshold iou_threshold = Inr dets"
    and c: "c < num_classes"
  shows "\<exists>boxes box_scores.
     yolo_candidates yolo_outputs anchors num_classes image_shape = Inr (boxes, box_scores)
     \<and> (let ds = filter (\<lambda>d. snd (snd d) = c) dets in
          (\<forall>p q. p < q \<and> q < length ds \<longrightarrow> corner_iou (fst (ds ! p)) (fst (ds ! q)) \<le> iou_threshold)
        \<and> (\<forall>d \<in> set ds. score_threshold \<le> fst (snd d)
              \<and> (\<exists>n < length boxes. fst d = boxes ! n \<and> fst (snd d) = box_scores ! n ! c))
        \<and> length ds \<le> max_boxes
        \<and> (\<forall>scores'. map (\<lambda>s. s ! c) scores' = map (\<lambda>s. s ! c) box_scores \<longrightarrow>
              ds = class_detections boxes scores' c max_boxes score_threshold iou_threshold))"
proof -
  from ev obtain boxes box_scores where
    cand: "yolo_candidates yolo_outputs anchors num_classes image_shape = Inr (boxes, box_scores)"
    and dets: "dets = detection_filter boxes box_scores num_classes max_boxes score_threshold iou_threshold"
    by (auto simp: yolo_eval_def split: sum.splits)
  define ds where "ds = filter (\<lambda>d. snd (snd d) = c) dets"
  have ds: "ds = class_detections boxes box_scores c max_boxes score_threshold iou_threshold"
    unfolding ds_def dets using c by (rule detection_filter_class)
  have pw: "\<forall>p q. p < q \<and> q < length ds \<longrightarrow> corner_iou (fst (ds ! p)) (fst (ds ! q)) \<le> iou_threshold"
    using class_detections_pairwise[of iou_threshold boxes box_scores c max_boxes score_threshold]
    unfolding ds[symmetric] by (auto simp: sorted_wrt_iff_nth_less not_less)
  have sc: "\<forall>d \<in> set ds. score_threshold \<le> fst (snd d)
              \<and> (\<exists>n < length boxes. fst d = boxes ! n \<and> fst (snd d) = box_scores ! n ! c)"
  proof
    fix d assume "d \<in> set ds"
    then obtain n where "n < length boxes" "fst d = boxes ! n" "fst (snd d) = box_scores ! n ! c"
        "score_threshold \<le> box_scores ! n ! c"
      using class_detections_origin[of d boxes box_scores c max_boxes score_threshold iou_threshold]
      unfolding ds by blast
    then show "score_threshold \<le> fst (snd d)
              \<and> (\<exists>n < length boxes. fst d = boxes ! n \<and> fst (snd d) = box_scores ! n ! c)"
      by auto
  qed
  have ln: "length ds \<le> max_boxes"
    unfolding ds by (rule class_detections_length)
  have ni: "\<forall>scores'. map (\<lambda>s. s ! c) scores' = map (\<lambda>s. s ! c) box_scores \<longrightarrow>
              ds = class_detections boxes scores' c max_boxes score_threshold iou_threshold"
    unfolding ds using class_detections_column by metis
  show ?thesis
    using cand pw sc ln ni unfolding ds_def Let_def by blast
qed

lemma explicit_call_value:
  "yolo_eval [feats0] tiny_anchors 1 (32, 32) 20 (3 / 10) (45 / 100)
   = Inr [(yolo_correct_boxes (1 / 2, 1 / 2) (81 / 32, 82 / 32) (32, 32) (32, 32), sigmoid 1 / 2, 0)]"
  unfolding yolo_eval_def cands0
  using sigmoid_1_bounds
  by (simp add: detection_filter_def class_detections_def non_max_suppression_def Let_def
                greedy_nms_pos)

theorem yolo_eval_nms_contract_witness:
  "\<exists>dets. yolo_eval [feats0] tiny_anchors 1 (32, 32) 20 (3 / 10) (45 / 100) = Inr dets
     \<and> dets \<noteq> []
     \<and> length (filter (\<lambda>d. snd (snd d) = 0) dets) \<le> 20
     \<and> list_all (\<lambda>d. 3 / 10 \<le> fst (snd d)) (filter (\<lambda>d. snd (snd d) = 0) dets)"
proof -
  let ?dets = "[(yolo_correct_boxes (1 / 2, 1 / 2) (81 / 32, 82 / 32) (32, 32) (32, 32),
                 sigmoid 1 / 2, 0::nat)]"
  from yolo_eval_nms_contract [OF explicit_call_value, of 0]
  have "3 / 10 \<le> sigmoid 1 / 2"
    by (auto simp: Let_def)
  then show ?thesis
    using explicit_call_value by (intro exI[of _ ?dets]) simp
qed

section \<open>The rows kept for anchor matching\<close>







section \<open>The best anchor and the anchor masks\<close>

lemma argmax_from_first_max:
  assumes "length pre = i" and "mi < i" and "pre ! mi = m"
    and "\<forall>j < i. pre ! j \<le> m" and "\<forall>j < mi. pre ! j < m"
  shows "let k = argmax_from (Fin m) mi i (map Fin rs); ys = pre @ rs in
           k < length ys \<and> (\<forall>j < length ys. ys ! j \<le> ys ! k) \<and> (\<forall>j < k. ys ! j < ys ! k)"
  using assms
proof (induction rs arbitrary: pre i mi m)
  case Nil
  then show ?case by (simp add: Let_def)
next
  case (Cons r rs)
  show ?case
  proof (cases "r \<le> m")
    case True
    have "let k = argmax_from (Fin m) mi (Suc i) (map Fin rs); ys = (pre @ [r]) @ rs in
           k < length ys \<and> (\<forall>j < length ys. ys ! j \<le> ys ! k) \<and> (\<forall>j < k. ys ! j < ys ! k)"
    proof (rule Cons.IH)
      show "length (pre @ [r]) = Suc i" using Cons.prems by simp
      show "mi < Suc i" using Cons.prems by simp
      show "(pre @ [r]) ! mi = m" using Cons.prems by (simp add: nth_append)
      show "\<forall>j < Suc i. (pre @ [r]) ! j \<le> m"
        using Cons.prems True by (auto simp: nth_append less_Suc_eq)
      show "\<forall>j < mi. (pre @ [r]) ! j < m"
        using Cons.prems by (auto simp: nth_append)
    qed
    then show ?thesis using True by simp
  next
    case False
    then have gt: "m < r" by simp
    have "let k = argmax_from (Fin r) i (Suc i) (map Fin rs); ys = (pre @ [r]) @ rs in
           k < length ys \<and> (\<forall>j < length ys. ys ! j \<le> ys ! k) \<and> (\<forall>j < k. ys ! j < ys ! k)"
    proof (rule Cons.IH)
      show "length (pre @ [r]) = Suc i" using Cons.prems by simp
      show "i < Suc i" by simp
      show "(pre @ [r]) ! i = r" using Cons.prems by (simp add: nth_append)
      show "\<forall>j < Suc i. (pre @ [r]) ! j \<le> r"
        using Cons.prems gt by (fastforce simp: nth_append less_Suc_eq)
      show "\<forall>j < i. (pre @ [r]) ! j < r"
        using Cons.prems gt by (fastforce simp: nth_append)
    qed
    then show ?thesis using False by simp
  qed
qed

text \<open>
  On finite values \<^verbatim>\<open>np.argmax\<close> returns an index of the maximum, and the first
  one: every earlier value is strictly smaller.
\<close>

lemma argmax_first_max:
  assumes "argmax (map Fin rs) = Inr k"
  shows "k < length rs \<and> (\<forall>j < length rs. rs ! j \<le> rs ! k) \<and> (\<forall>j < k. rs ! j < rs ! k)"
proof (cases rs)
  case Nil
  with assms show ?thesis by simp
next
  case (Cons r rs')
  with assms have k: "k = argmax_from (Fin r) 0 1 (map Fin rs')" by simp
  show ?thesis
    using argmax_from_first_max[of "[r]" 1 0 r rs'] k Cons by (simp add: Let_def)
qed

text \<open>
  The mask of three scales gives each of the nine anchors to exactly one scale.
  The mask of two scales gives anchor 0 to no scale and anchor 3 to both.
\<close>

lemma full_mask_partition:
  "n < 9 \<Longrightarrow> length (filter (\<lambda>l. n \<in> set (anchor_mask 3 ! l)) [0, 1, 2]) = 1"
  by (auto simp: anchor_mask_def)

lemma tiny_mask_defect:
  "filter (\<lambda>l. 0 \<in> set (anchor_mask 2 ! l)) [0, 1] = []
   \<and> filter (\<lambda>l. 3 \<in> set (anchor_mask 2 ! l)) [0, 1] = [0, 1]"
  by (simp add: anchor_mask_def)

text \<open>For a box of positive width and height the shape IoU is a finite value.\<close>

lemma shape_iou_finite:
  assumes "0 < fst wh" "0 < snd wh" "0 \<le> fst a" "0 \<le> snd a"
  shows "\<exists>q. shape_iou wh a = Fin q"
proof -
  define iw where "iw = max (min (fst wh / 2) (fst a / 2) - max (- (fst wh / 2)) (- (fst a / 2))) 0"
  define ih where "ih = max (min (snd wh / 2) (snd a / 2) - max (- (snd wh / 2)) (- (snd a / 2))) 0"
  have iw: "0 \<le> iw" "iw \<le> fst a" unfolding iw_def using assms by (auto simp: max_def min_def)
  have ih: "0 \<le> ih" "ih \<le> snd a" unfolding ih_def using assms by (auto simp: max_def min_def)
  have "iw * ih \<le> fst a * snd a" using iw ih assms by (intro mult_mono) simp_all
  moreover have "0 < fst wh * snd wh" using assms by simp
  ultimately have "fst wh * snd wh + fst a * snd a - iw * ih \<noteq> 0" by linarith
  then show ?thesis
    by (simp add: shape_iou_def Let_def fdiv_def iw_def ih_def)
qed

section \<open>The target assigner on concrete batches\<close>


lemma best_small: "argmax (map (shape_iou (10, 14)) tiny_anchors) = Inr 0"
  by (simp add: tiny_anchors_def shape_iou_def fdiv_def Let_def)

lemma best_mid: "argmax (map (shape_iou (81, 82)) tiny_anchors) = Inr 3"
  by (simp add: tiny_anchors_def shape_iou_def fdiv_def Let_def)

lemma upt_0_2: "[0..<2] = [0, 1]" and upt_0_3: "[0..<3] = [0, 1, 2]"
  by (simp_all add: upt_rec)

lemma init_tiny:
  "init_y_true 1 (416, 416) (anchor_mask 2) 1 [0, 1]
   = Inr [zeros (1, 13, 13, 3, 6), zeros (1, 26, 26, 3, 6)]"
  by (simp add: anchor_mask_def grid_shape_def numeral_3_eq_3)

lemma init_yolo:
  "init_y_true 1 (416, 416) (anchor_mask 3) 1 [0, 1, 2]
   = Inr [zeros (1, 13, 13, 3, 6), zeros (1, 26, 26, 3, 6), zeros (1, 52, 52, 3, 6)]"
  by (simp add: anchor_mask_def grid_shape_def numeral_3_eq_3)

lemma preprocess_tiny:
  assumes "\<forall>r \<in> set img. class_id r < 1"
  shows "preprocess_true_boxes [img] (416, 416) tiny_anchors 1
       = assign_images (416, 416) tiny_anchors (anchor_mask 2) [0, 1] 0 [img]
           [zeros (1, 13, 13, 3, 6), zeros (1, 26, 26, 3, 6)]"
proof -
  have n: "length tiny_anchors div 3 = 2" by (simp add: tiny_anchors_def)
  show ?thesis
    unfolding preprocess_true_boxes_def Let_def n upt_0_2
    using assms init_tiny by simp
qed

lemma preprocess_yolo:
  assumes "\<forall>r \<in> set img. class_id r < 1"
  shows "preprocess_true_boxes [img] (416, 416) yolo_anchors 1
       = assign_images (416, 416) yolo_anchors (anchor_mask 3) [0, 1, 2] 0 [img]
           [zeros (1, 13, 13, 3, 6), zeros (1, 26, 26, 3, 6), zeros (1, 52, 52, 3, 6)]"
proof -
  have n: "length yolo_anchors div 3 = 3" by (simp add: yolo_anchors_def)
  show ?thesis
    unfolding preprocess_true_boxes_def Let_def n upt_0_3
    using assms init_yolo by simp
qed

lemma assign_small:
  "assign_images (416, 416) tiny_anchors (anchor_mask 2) [0, 1] 0
     [[\<lparr>x_min = 100, y_min = 100, x_max = 110, y_max = 114, class_id = 0\<rparr>]]
     [zeros (1, 13, 13, 3, 6), zeros (1, 26, 26, 3, 6)]
   = Inr [zeros (1, 13, 13, 3, 6), zeros (1, 26, 26, 3, 6)]"
  by (simp add: valid_mask_def boxes_wh_def best_small anchor_mask_def)

lemma assign_mid:
  "\<exists>y. assign_images (416, 416) tiny_anchors (anchor_mask 2) [0, 1] 0
     [[\<lparr>x_min = 100, y_min = 100, x_max = 181, y_max = 182, class_id = 0\<rparr>]]
     [zeros (1, 13, 13, 3, 6), zeros (1, 26, 26, 3, 6)] = Inr y
     \<and> data (y ! 0) (0, 4, 4, 0, 4) = 1 \<and> data (y ! 1) (0, 8, 8, 2, 4) = 1"
  by (simp add: valid_mask_def boxes_wh_def best_mid anchor_mask_def
        grid_shape_def normalize_box_def boxes_xy_def floor_div2_def write_target_def zeros_def
        np_index_def astype_int_def Let_def)


lemma best_4060: "argmax (map (shape_iou (40, 60)) yolo_anchors) = Inr 3"
  by (simp add: yolo_anchors_def shape_iou_def fdiv_def Let_def)

lemma assign_shifted:
  "\<exists>y. assign_images (416, 416) yolo_anchors (anchor_mask 3) [0, 1, 2] 0
     [[\<lparr>x_min = 0, y_min = 0, x_max = 0, y_max = 0, class_id = 0\<rparr>,
       \<lparr>x_min = 100, y_min = 100, x_max = 140, y_max = 160, class_id = 0\<rparr>]]
     [zeros (1, 13, 13, 3, 6), zeros (1, 26, 26, 3, 6), zeros (1, 52, 52, 3, 6)] = Inr y
     \<and> data (y ! 1) (0, 0, 0, 0, 4) = 1 \<and> data (y ! 1) (0, 8, 7, 0, 4) = 0"
  by (simp add: valid_mask_def boxes_wh_def best_4060 anchor_mask_def
        grid_shape_def normalize_box_def boxes_xy_def floor_div2_def write_target_def zeros_def
        np_index_def astype_int_def Let_def)


text \<open>
  Claim C1 on the code. With the six anchors of the tiny model the mask is
  [[3, 4, 5], [1, 2, 3]]. A 10 x 14 box has best anchor 0, which no scale owns:
  the targets stay zero everywhere. An 81 x 82 box has best anchor 3, which both
  scales own: it is written twice, at scale 0 in slot 0 and at scale 1 in slot 2.
  And with the nine anchors of the full model, a box that stands after a row of
  zero width is matched (best anchor 3) but the row written is the row before
  it: cell (0, 0) of scale 1 gets the objectness flag, the cell of the box
  itself stays zero.
\<close>

theorem mask_assignment_evaluated:
  "preprocess_true_boxes
     [[\<lparr>x_min = 100, y_min = 100, x_max = 110, y_max = 114, class_id = 0\<rparr>]]
     (416, 416) tiny_anchors 1
   = Inr [zeros (1, 13, 13, 3, 6), zeros (1, 26, 26, 3, 6)]
   \<and> (\<exists>y. preprocess_true_boxes
          [[\<lparr>x_min = 100, y_min = 100, x_max = 181, y_max = 182, class_id = 0\<rparr>]]
          (416, 416) tiny_anchors 1 = Inr y
        \<and> data (y ! 0) (0, 4, 4, 0, 4) = 1 \<and> data (y ! 1) (0, 8, 8, 2, 4) = 1)
   \<and> (\<exists>y. preprocess_true_boxes
          [[\<lparr>x_min = 0, y_min = 0, x_max = 0, y_max = 0, class_id = 0\<rparr>,
            \<lparr>x_min = 100, y_min = 100, x_max = 140, y_max = 160, class_id = 0\<rparr>]]
          (416, 416) yolo_anchors 1 = Inr y
        \<and> data (y ! 1) (0, 0, 0, 0, 4) = 1 \<and> data (y ! 1) (0, 8, 7, 0, 4) = 0)"
proof -
  have a: "preprocess_true_boxes
     [[\<lparr>x_min = 100, y_min = 100, x_max = 110, y_max = 114, class_id = 0\<rparr>]]
     (416, 416) tiny_anchors 1
   = Inr [zeros (1, 13, 13, 3, 6), zeros (1, 26, 26, 3, 6)]"
    using assign_small by (subst preprocess_tiny) simp_all
  have b: "\<exists>y. preprocess_true_boxes
          [[\<lparr>x_min = 100, y_min = 100, x_max = 181, y_max = 182, class_id = 0\<rparr>]]
          (416, 416) tiny_anchors 1 = Inr y
        \<and> data (y ! 0) (0, 4, 4, 0, 4) = 1 \<and> data (y ! 1) (0, 8, 8, 2, 4) = 1"
    using assign_mid by (subst preprocess_tiny) simp_all
  have c: "\<exists>y. preprocess_true_boxes
          [[\<lparr>x_min = 0, y_min = 0, x_max = 0, y_max = 0, class_id = 0\<rparr>,
            \<lparr>x_min = 100, y_min = 100, x_max = 140, y_max = 160, class_id = 0\<rparr>]]
          (416, 416) yolo_anchors 1 = Inr y
        \<and> data (y ! 1) (0, 0, 0, 0, 4) = 1 \<and> data (y ! 1) (0, 8, 7, 0, 4) = 0"
    using assign_shifted by (subst preprocess_yolo) simp_all
  show ?thesis using a b c by blast
qed

theorem mask_assignment_evaluated_witness:
  "\<exists>y. preprocess_true_boxes
          [[\<lparr>x_min = 100, y_min = 100, x_max = 110, y_max = 114, class_id = 0\<rparr>]]
          (416, 416) tiny_anchors 1 = Inr y
     \<and> data (y ! 0) (0, 3, 3, 0, 4) = 0 \<and> data (y ! 1) (0, 6, 6, 0, 4) = 0"
  using mask_assignment_evaluated by (simp add: zeros_def)

end
